theory Spec2Isabelle
  imports Complex_Main "HOL-Library.Product_Lexorder"
begin

section \<open>ChatService: data model\<close>

text \<open>
  The development embeds \<^verbatim>\<open>backend/main/src/chat/chat.service.ts\<close>. The repository
  holds three revisions of the service:
  \<^item> the current one (first part of \<^verbatim>\<open>chat.service.ts\<close>), with
    \<^verbatim>\<open>checkAndCreateAchievement\<close> and \<^verbatim>\<open>checkProgress\<close>;
  \<^item> an intermediate one (the unnamed source part), whose class has neither
    \<^verbatim>\<open>checkAndCreateAchievement\<close> nor \<^verbatim>\<open>checkProgress\<close>;
  \<^item> a legacy one (second part of \<^verbatim>\<open>chat.service.ts\<close>), which keeps the grading
    result on the problem row and reads the twenty most recent problems.
  Definitions without a suffix follow the current revision; \<open>_mid\<close> and \<open>_legacy\<close> mark
  the other two.
\<close>

subsection \<open>JavaScript numbers\<close>

text \<open>
  A JavaScript \<^verbatim>\<open>number\<close>: a finite value, one of the two infinities, or NaN. Finite
  values are kept as rationals, so the rounding of IEEE doubles is left out; every number
  the service computes is a quotient of two small counts, and the comparisons below are
  monotone under rounding.
\<close>

datatype number = Fin rat | PosInf | NegInf | NaN

text \<open>\<^verbatim>\<open>a / b\<close> on finite operands: \<^verbatim>\<open>0 / 0\<close> is NaN, \<^verbatim>\<open>x / 0\<close> an infinity.\<close>

definition js_div :: "rat \<Rightarrow> rat \<Rightarrow> number" where
  "js_div a b =
     (if b = 0 then (if a = 0 then NaN else if 0 < a then PosInf else NegInf)
      else Fin (a / b))"

text \<open>\<^verbatim>\<open>a > b\<close>: false as soon as one side is NaN.\<close>

fun js_gt :: "number \<Rightarrow> number \<Rightarrow> bool" where
  "js_gt NaN _ = False"
| "js_gt _ NaN = False"
| "js_gt (Fin a) (Fin b) = (b < a)"
| "js_gt (Fin a) PosInf = False"
| "js_gt (Fin a) NegInf = True"
| "js_gt PosInf PosInf = False"
| "js_gt PosInf _ = True"
| "js_gt NegInf _ = False"

text \<open>
  The order the storage engine sorts a float column by. NaN is placed above every other
  value, as PostgreSQL does; on the other values it is the numeric order.
\<close>

fun level_key :: "number \<Rightarrow> nat \<times> rat" where
  "level_key NegInf = (0, 0)"
| "level_key (Fin r) = (1, r)"
| "level_key PosInf = (2, 0)"
| "level_key NaN = (3, 0)"

subsection \<open>Dates\<close>

text \<open>
  A \<^verbatim>\<open>Date\<close> as the service reads it: the three local calendar fields it asks for, and
  the time within the day, which only orders rows of the same day.
\<close>

record js_date =
  getFullYear :: int
  getMonth :: int
  getDate :: int
  msOfDay :: nat

definition date_key :: "js_date \<Rightarrow> int \<times> int \<times> int \<times> nat" where
  "date_key d = (getFullYear d, getMonth d, getDate d, msOfDay d)"

definition day_key :: "js_date \<Rightarrow> int \<times> int \<times> int" where
  "day_key d = (getFullYear d, getMonth d, getDate d)"

subsection \<open>Rows and the record store\<close>

text \<open>
  Field names carry a prefix where two tables share a column name (\<open>id\<close>, \<open>userId\<close>,
  \<open>correct\<close>, \<open>total\<close>). The Prisma schema is not part of the sources; a row has the
  columns the service reads or writes.
\<close>

record user =
  user_id :: string
  birth :: js_date
  interest :: string

record problem =
  problem_id :: string
  problem_userId :: string
  question :: string
  answer :: string
  imagePath :: string
  wholeText :: string

record solveHistory =
  sh_userId :: string
  sh_problemId :: string
  isCorrect :: "bool option"
  feedback :: string
  voicePath :: string

record progress =
  prog_id :: nat
  prog_userId :: string
  prog_correct :: int
  prog_total :: int
  createdAt :: js_date

text \<open>
  Title and description of an achievement are template strings around
  \<^verbatim>\<open>(newAnswerRate * 100).toFixed(2)\<close>; the model keeps the template and its argument.
\<close>

datatype template = RateReached number | RateRecord number

record achievement =
  ach_id :: nat
  title :: template
  description :: template
  level :: number

record userAchievement =
  ua_userId :: string
  achievementId :: nat

record store =
  users :: "user list"
  problems :: "problem list"
  solveHistories :: "solveHistory list"
  progresses :: "progress list"
  achievements :: "achievement list"
  userAchievements :: "userAchievement list"

text \<open>
  Modelled from the spec: the schema that assigns the id of a created row is missing
  from the sources. A created row gets an id no row of its table has.
\<close>

definition fresh_id :: "nat list \<Rightarrow> nat" where
  "fresh_id ids = Suc (fold max ids 0)"

text \<open>
  \<^verbatim>\<open>findFirst\<close> with \<^verbatim>\<open>orderBy: desc\<close>: a row whose key is greatest, the earliest
  stored one among equals.
\<close>

fun max_by :: "('a \<Rightarrow> 'k::linorder) \<Rightarrow> 'a list \<Rightarrow> 'a option" where
  "max_by k [] = None"
| "max_by k (x # xs) =
     (case max_by k xs of
        None \<Rightarrow> Some x
      | Some y \<Rightarrow> if k x < k y then Some y else Some x)"

text \<open>A truthiness test on a nullable boolean column.\<close>

fun truthy :: "bool option \<Rightarrow> bool" where
  "truthy (Some b) = b"
| "truthy None = False"

text \<open>
  \<^verbatim>\<open>solveHistories.reduce((acc, cur) => (cur.isCorrect ? acc + 1 : acc), 0)\<close>
\<close>

definition countCorrect :: "solveHistory list \<Rightarrow> int" where
  "countCorrect hs = foldl (\<lambda>acc cur. if truthy (isCorrect cur) then acc + 1 else acc) 0 hs"

definition solveHistoriesOf :: "store \<Rightarrow> string \<Rightarrow> solveHistory list" where
  "solveHistoriesOf st uid = filter (\<lambda>h. sh_userId h = uid) (solveHistories st)"

section \<open>checkAndCreateAchievement\<close>

text \<open>
  \<^verbatim>\<open>userAchievements.findFirst({ where: { userId }, include: { achievement: true },
  orderBy: { achievement: { level: 'desc' } } })\<close>: the user's links joined with their
  achievements, and of these the one with the highest level.
\<close>

definition achievementsOf :: "store \<Rightarrow> string \<Rightarrow> achievement list" where
  "achievementsOf st uid =
     List.map_filter (\<lambda>ua. find (\<lambda>a. ach_id a = achievementId ua) (achievements st))
       (filter (\<lambda>ua. ua_userId ua = uid) (userAchievements st))"

definition highestAnsRateAchievement :: "store \<Rightarrow> string \<Rightarrow> achievement option" where
  "highestAnsRateAchievement st uid = max_by (\<lambda>a. level_key (level a)) (achievementsOf st uid)"

definition retitle :: "number \<Rightarrow> nat \<Rightarrow> achievement \<Rightarrow> achievement" where
  "retitle newAnswerRate i a =
     (if ach_id a = i
      then a\<lparr>title := RateReached newAnswerRate, description := RateRecord newAnswerRate,
             level := newAnswerRate\<rparr>
      else a)"

definition checkAndCreateAchievement :: "store \<Rightarrow> string \<Rightarrow> number \<Rightarrow> store" where
  "checkAndCreateAchievement st userId newAnswerRate =
     (case highestAnsRateAchievement st userId of
        Some h \<Rightarrow>
          if js_gt newAnswerRate (level h)
          then st\<lparr>achievements := map (retitle newAnswerRate (ach_id h)) (achievements st)\<rparr>
          else st
      | None \<Rightarrow>
          let i = fresh_id (map ach_id (achievements st))
          in st\<lparr>achievements := achievements st @
                   [\<lparr>ach_id = i, title = RateReached newAnswerRate,
                     description = RateRecord newAnswerRate, level = newAnswerRate\<rparr>],
                 userAchievements := userAchievements st @
                   [\<lparr>ua_userId = userId, achievementId = i\<rparr>]\<rparr>)"

text \<open>The level the store holds for a user: that of the achievement the query returns.\<close>

definition user_level :: "store \<Rightarrow> string \<Rightarrow> number option" where
  "user_level st uid = map_option level (highestAnsRateAchievement st uid)"

text \<open>A run of calls, each for some user with a finite rate, in order.\<close>

definition evaluate_all :: "store \<Rightarrow> (string \<times> rat) list \<Rightarrow> store" where
  "evaluate_all st calls = foldl (\<lambda>s (uid, r). checkAndCreateAchievement s uid (Fin r)) st calls"

fun isFinite :: "number \<Rightarrow> bool" where
  "isFinite (Fin _) = True"
| "isFinite _ = False"

definition finite_levels :: "store \<Rightarrow> bool" where
  "finite_levels st = list_all (\<lambda>a. isFinite (level a)) (achievements st)"

section \<open>checkProgress\<close>

text \<open>
  Errors the service raises. \<open>TypeError\<close> is what reading a property of \<^verbatim>\<open>null\<close> throws;
  \<open>Error\<close> and \<open>InternalServerErrorException\<close> carry the message they are built with;
  \<open>HttpError\<close> is the rejection of the HTTP client, passed on as it is.
\<close>

datatype error =
    TypeError
  | Error string
  | InternalServerErrorException string
  | HttpError string

text \<open>\<^verbatim>\<open>progresses.findFirst({ where: { userId }, orderBy: { createdAt: 'desc' } })\<close>\<close>

definition latestProgress :: "store \<Rightarrow> string \<Rightarrow> progress option" where
  "latestProgress st uid =
     max_by (\<lambda>p. date_key (createdAt p)) (filter (\<lambda>p. prog_userId p = uid) (progresses st))"

definition sameDay :: "js_date \<Rightarrow> js_date \<Rightarrow> bool" where
  "sameDay a b \<longleftrightarrow>
     getDate a = getDate b \<and> getMonth a = getMonth b \<and> getFullYear a = getFullYear b"

definition bump :: "bool \<Rightarrow> progress \<Rightarrow> progress" where
  "bump ok prog =
     prog\<lparr>prog_correct := (if ok then prog_correct prog + 1 else prog_correct prog),
          prog_total := prog_total prog + 1\<rparr>"

text \<open>
  \<open>cur\<close> is the value of \<^verbatim>\<open>new Date()\<close>. The row \<^verbatim>\<open>update\<close> resolves to is not used by
  any caller, so the result is the unit value. Modelled from the spec: a created bucket
  is stamped with the current time (the column default is in the missing schema).
\<close>

definition checkProgress :: "js_date \<Rightarrow> store \<Rightarrow> string \<Rightarrow> bool \<Rightarrow> (error + unit) \<times> store" where
  "checkProgress cur st userId ok =
     (case find (\<lambda>u. user_id u = userId) (users st) of
        None \<Rightarrow> (Inl TypeError, st)
      | Some usr \<Rightarrow>
          (case latestProgress st (user_id usr) of
             None \<Rightarrow> (Inr (), st)
           | Some prog \<Rightarrow>
               if sameDay (createdAt prog) cur
               then (Inr (),
                     st\<lparr>progresses :=
                          map (\<lambda>p. if prog_id p = prog_id prog then bump ok prog else p)
                            (progresses st)\<rparr>)
               else
                 let hs = solveHistoriesOf st (user_id usr);
                     c = countCorrect hs;
                     t = int (length hs)
                 in (Inr (),
                     st\<lparr>progresses := progresses st @
                          [\<lparr>prog_id = fresh_id (map prog_id (progresses st)),
                            prog_userId = user_id usr, prog_correct = c, prog_total = t,
                            createdAt = cur\<rparr>]\<rparr>)))"

section \<open>The inference service\<close>

text \<open>
  The service posts one request per operation and awaits the reply. A reply either
  rejects with a message (transport error or non-success status) or resolves to the
  \<^verbatim>\<open>data\<close> object of the response body.
\<close>

datatype 'a reply = Rejects string | Resolves 'a

datatype tier = Beginner

datatype feedback_field = PendingQuery | EmptyText

record userInfo =
  age :: int
  accuracy :: number
  interests :: string
  languageLevel :: tier
  languageGoals :: "unit option"
  feedbackHistory :: feedback_field

record form =
  form_problemId :: string
  form_answer :: string
  form_voice :: "string \<times> string"

datatype body = Json userInfo | Multipart form

datatype request = Post string body

record problem_data =
  r_id :: string
  r_question :: string
  r_answer :: string
  r_image :: string
  r_image_path :: string
  r_whole_text :: string

record feedback_data =
  is_correct :: bool
  fb_feedback :: string
  voice_path :: string

section \<open>generateProblem\<close>

text \<open>The age in months, lines 25 to 30.\<close>

definition ageInMonths :: "js_date \<Rightarrow> js_date \<Rightarrow> int" where
  "ageInMonths cur b =
     \<bar>(getFullYear cur - getFullYear b) * 12 + (getMonth cur - getMonth b)\<bar>"

text \<open>\<^verbatim>\<open>const answerRate = total === 0 ? 0 : correct / total\<close>\<close>

definition answerRate :: "solveHistory list \<Rightarrow> number" where
  "answerRate hs =
     (let correct = countCorrect hs; total = length hs
      in if total = 0 then Fin 0 else js_div (of_int correct) (of_nat total))"

definition storeProblem :: "string \<Rightarrow> problem_data \<Rightarrow> problem" where
  "storeProblem uid r =
     \<lparr>problem_id = r_id r, problem_userId = uid, question = r_question r,
      answer = r_answer r, imagePath = r_image_path r, wholeText = r_whole_text r\<rparr>"

text \<open>
  The object handed back to the caller, as its list of properties. The result of the
  operation is the error or this object, the store as the awaited writes leave it, and
  the requests sent to the inference service.
\<close>

type_synonym js_object = "(string \<times> string) list"

definition generateProblem ::
  "js_date \<Rightarrow> problem_data reply \<Rightarrow> store \<Rightarrow> string \<Rightarrow> (error + js_object) \<times> store \<times> request list"
where
  "generateProblem cur ai st userId =
     (case find (\<lambda>u. user_id u = userId) (users st) of
        None \<Rightarrow> (Inl TypeError, st, [])
      | Some usr \<Rightarrow>
          let month = ageInMonths cur (birth usr);
              rate = answerRate (solveHistoriesOf st (user_id usr));
              st1 = checkAndCreateAchievement st (user_id usr) rate;
              data = \<lparr>age = month, accuracy = rate, interests = interest usr,
                      languageLevel = Beginner, languageGoals = None,
                      feedbackHistory = PendingQuery\<rparr>;
              sent = [Post ''/chat/generate_problem'' (Json data)]
          in (case ai of
                Rejects msg \<Rightarrow> (Inl (HttpError msg), st1, sent)
              | Resolves r \<Rightarrow>
                  (Inr [(''problemId'', r_id r), (''question'', r_question r),
                        (''image'', r_image r)],
                   st1\<lparr>problems := problems st1 @ [storeProblem (user_id usr) r]\<rparr>,
                   sent)))"

text \<open>The intermediate revision: the same without the achievement call.\<close>

definition generateProblem_mid ::
  "js_date \<Rightarrow> problem_data reply \<Rightarrow> store \<Rightarrow> string \<Rightarrow> (error + js_object) \<times> store \<times> request list"
where
  "generateProblem_mid cur ai st userId =
     (case find (\<lambda>u. user_id u = userId) (users st) of
        None \<Rightarrow> (Inl TypeError, st, [])
      | Some usr \<Rightarrow>
          let month = ageInMonths cur (birth usr);
              rate = answerRate (solveHistoriesOf st (user_id usr));
              data = \<lparr>age = month, accuracy = rate, interests = interest usr,
                      languageLevel = Beginner, languageGoals = None,
                      feedbackHistory = PendingQuery\<rparr>;
              sent = [Post ''/chat/generate_problem'' (Json data)]
          in (case ai of
                Rejects msg \<Rightarrow> (Inl (HttpError msg), st, sent)
              | Resolves r \<Rightarrow>
                  (Inr [(''problemId'', r_id r), (''question'', r_question r),
                        (''image'', r_image r)],
                   st\<lparr>problems := problems st @ [storeProblem (user_id usr) r]\<rparr>,
                   sent)))"

subsection \<open>The legacy revision\<close>

text \<open>
  The legacy revision has no attempt table: the grading result is a nullable column of
  the problem row, and the history is the twenty most recent problems of the user.
  Modelled from the spec: a created problem is stamped with the current time and has no
  grading result yet (both column defaults are in the missing schema).
\<close>

record problem_legacy = problem +
  pl_isCorrect :: "bool option"
  pl_createdAt :: js_date

record store_legacy =
  users_legacy :: "user list"
  problems_legacy :: "problem_legacy list"

text \<open>
  \<^verbatim>\<open>problems.findMany({ where: { userId }, orderBy: { createdAt: 'desc' }, take: 20 })\<close>
\<close>

definition recentProblems :: "store_legacy \<Rightarrow> string \<Rightarrow> problem_legacy list" where
  "recentProblems st uid =
     take 20 (rev (sort_key (\<lambda>p. date_key (pl_createdAt p))
       (filter (\<lambda>p. problem_userId p = uid) (problems_legacy st))))"

text \<open>
  \<^verbatim>\<open>problems.reduce((acc, cur) => acc + (cur.isCorrect ? 1 : 0), 0) / problems.length\<close>
\<close>

definition answerRate_legacy :: "problem_legacy list \<Rightarrow> number" where
  "answerRate_legacy ps =
     js_div (of_int (foldl (\<lambda>acc cur. acc + (if truthy (pl_isCorrect cur) then 1 else 0)) 0 ps))
       (of_nat (length ps))"

definition generateProblem_legacy ::
  "js_date \<Rightarrow> problem_data reply \<Rightarrow> store_legacy \<Rightarrow> string
     \<Rightarrow> (error + js_object) \<times> store_legacy \<times> request list"
where
  "generateProblem_legacy cur ai st userId =
     (case find (\<lambda>u. user_id u = userId) (users_legacy st) of
        None \<Rightarrow> (Inl TypeError, st, [])
      | Some usr \<Rightarrow>
          let month = ageInMonths cur (birth usr);
              rate = answerRate_legacy (recentProblems st (user_id usr));
              data = \<lparr>age = month, accuracy = rate, interests = interest usr,
                      languageLevel = Beginner, languageGoals = None,
                      feedbackHistory = EmptyText\<rparr>;
              sent = [Post ''/generate_problem'' (Json data)]
          in (case ai of
                Rejects msg \<Rightarrow> (Inl (HttpError msg), st, sent)
              | Resolves r \<Rightarrow>
                  (Inr [(''question'', r_question r), (''image'', r_image r)],
                   st\<lparr>problems_legacy := problems_legacy st @
                        [\<lparr>problem_id = r_id r, problem_userId = user_id usr,
                          question = r_question r, answer = r_answer r,
                          imagePath = r_image_path r, wholeText = r_whole_text r,
                          pl_isCorrect = None, pl_createdAt = cur\<rparr>]\<rparr>,
                   sent)))"

section \<open>generateFeedback\<close>

text \<open>
  \<^verbatim>\<open>JSON.stringify\<close> of a text: the text between double quotes, with the quote, the
  backslash and the control characters escaped. The answer column is taken to hold text.
\<close>

definition hexDigit :: "nat \<Rightarrow> char" where
  "hexDigit n = ''0123456789abcdef'' ! (n mod 16)"

definition json_escape :: "char \<Rightarrow> string" where
  "json_escape c =
     (if c = CHR 0x22 then [CHR 0x5C, CHR 0x22]
      else if c = CHR 0x5C then [CHR 0x5C, CHR 0x5C]
      else if c = CHR 0x08 then [CHR 0x5C, CHR ''b'']
      else if c = CHR 0x0C then [CHR 0x5C, CHR ''f'']
      else if c = CHR 0x0A then [CHR 0x5C, CHR ''n'']
      else if c = CHR 0x0D then [CHR 0x5C, CHR ''r'']
      else if c = CHR 0x09 then [CHR 0x5C, CHR ''t'']
      else if (of_char c :: nat) < 32
        then [CHR 0x5C, CHR ''u'', CHR ''0'', CHR ''0'',
              hexDigit (of_char c div 16), hexDigit (of_char c)]
      else [c])"

definition JSON_stringify :: "string \<Rightarrow> string" where
  "JSON_stringify t = CHR 0x22 # concat (map json_escape t) @ [CHR 0x22]"

record voice =
  buffer :: string
  originalname :: string

text \<open>
  The operation awaits one read and the HTTP call. After a successful reply it has two
  statements that are not awaited.

  Line 129 builds the query \<^verbatim>\<open>solveHistories.create(...)\<close> and drops it. The Prisma
  client sends a query only when its promise is awaited or chained, and this one is
  neither: no attempt row is written, and the statement has no effect on the store.

  Line 139 calls \<^verbatim>\<open>checkProgress\<close>, an async method, and drops its promise. The method
  runs; how it settles, fulfilled or rejected, is seen by nobody. \<open>Rejected\<close> stands
  for every way its write does not land. The store in the result is the one found once
  it has settled.
\<close>

datatype fate = Fulfilled | Rejected

definition settle :: "fate \<Rightarrow> js_date \<Rightarrow> store \<Rightarrow> string \<Rightarrow> feedback_data \<Rightarrow> store" where
  "settle f cur st uid d =
     (case f of
        Fulfilled \<Rightarrow> snd (checkProgress cur st uid (is_correct d))
      | Rejected \<Rightarrow> st)"

text \<open>\<open>uid\<close> is \<^verbatim>\<open>user.id\<close> of the authenticated caller.\<close>

definition generateFeedback ::
  "js_date \<Rightarrow> feedback_data reply \<Rightarrow> fate \<Rightarrow> store \<Rightarrow> string \<Rightarrow> string \<Rightarrow> voice
     \<Rightarrow> (error + feedback_data) \<times> store \<times> request list"
where
  "generateFeedback cur ai f st problemId uid v =
     (case find (\<lambda>p. problem_id p = problemId \<and> problem_userId p = uid) (problems st) of
        None \<Rightarrow> (Inl (Error ''Problem not found''), st, [])
      | Some prob \<Rightarrow>
          let frm = \<lparr>form_problemId = problemId, form_answer = JSON_stringify (answer prob),
                     form_voice = (buffer v, originalname v)\<rparr>;
              sent = [Post ''/chat/generate_feedback'' (Multipart frm)]
          in (case ai of
                Rejects msg \<Rightarrow> (Inl (InternalServerErrorException msg), st, sent)
              | Resolves d \<Rightarrow> (Inr d, settle f cur st uid d, sent)))"

text \<open>
  The intermediate revision has the same text, but its class defines no
  \<^verbatim>\<open>checkProgress\<close>: after a successful reply the call of line 139 throws a TypeError
  inside the \<^verbatim>\<open>try\<close>, and the \<^verbatim>\<open>catch\<close> turns it into an
  \<^verbatim>\<open>InternalServerErrorException\<close> with the TypeError's message.
\<close>

definition generateFeedback_mid ::
  "feedback_data reply \<Rightarrow> store \<Rightarrow> string \<Rightarrow> string \<Rightarrow> voice
     \<Rightarrow> (error + feedback_data) \<times> store \<times> request list"
where
  "generateFeedback_mid ai st problemId uid v =
     (case find (\<lambda>p. problem_id p = problemId \<and> problem_userId p = uid) (problems st) of
        None \<Rightarrow> (Inl (Error ''Problem not found''), st, [])
      | Some prob \<Rightarrow>
          let frm = \<lparr>form_problemId = problemId, form_answer = JSON_stringify (answer prob),
                     form_voice = (buffer v, originalname v)\<rparr>;
              sent = [Post ''/chat/generate_feedback'' (Multipart frm)]
          in (case ai of
                Rejects msg \<Rightarrow> (Inl (InternalServerErrorException msg), st, sent)
              | Resolves d \<Rightarrow>
                  (Inl (InternalServerErrorException ''this.checkProgress is not a function''),
                   st, sent)))"

section \<open>Sample stores\<close>

text \<open>Concrete rows and stores on which the theorems below are instantiated.\<close>

definition emptyStore :: store where
  "emptyStore = \<lparr>users = [], problems = [], solveHistories = [], progresses = [],
     achievements = [], userAchievements = []\<rparr>"

definition may10 :: js_date where
  "may10 = \<lparr>getFullYear = 2024, getMonth = 4, getDate = 10, msOfDay = 1000\<rparr>"

definition may10_later :: js_date where
  "may10_later = \<lparr>getFullYear = 2024, getMonth = 4, getDate = 10, msOfDay = 5000\<rparr>"

definition may11 :: js_date where
  "may11 = \<lparr>getFullYear = 2024, getMonth = 4, getDate = 11, msOfDay = 50\<rparr>"

definition alice :: user where
  "alice = \<lparr>user_id = ''u1'',
     birth = \<lparr>getFullYear = 2020, getMonth = 1, getDate = 1, msOfDay = 0\<rparr>,
     interest = ''cars''\<rparr>"

definition attempt :: "string \<Rightarrow> bool \<Rightarrow> solveHistory" where
  "attempt uid ok = \<lparr>sh_userId = uid, sh_problemId = ''p1'', isCorrect = Some ok,
     feedback = ''fb'', voicePath = ''v''\<rparr>"

definition bucket :: progress where
  "bucket = \<lparr>prog_id = 1, prog_userId = ''u1'', prog_correct = 1, prog_total = 1,
     createdAt = may10\<rparr>"

definition p1 :: problem where
  "p1 = \<lparr>problem_id = ''p1'', problem_userId = ''u1'', question = ''q'', answer = ''a'',
     imagePath = ''path'', wholeText = ''w''\<rparr>"

text \<open>A user without any row of their own.\<close>

definition newcomer :: store where
  "newcomer = emptyStore\<lparr>users := [alice]\<rparr>"

text \<open>
  A user with one problem, three attempts (two of them correct) among those of another
  user, and one bucket created on the tenth of May.
\<close>

definition learner :: store where
  "learner = \<lparr>users = [alice], problems = [p1],
     solveHistories =
       [attempt ''u1'' True, attempt ''u2'' True, attempt ''u1'' True, attempt ''u1'' False],
     progresses = [bucket], achievements = [], userAchievements = []\<rparr>"

text \<open>The same store with the problem owned by somebody else.\<close>

definition stranger :: store where
  "stranger = learner\<lparr>problems := [p1\<lparr>problem_userId := ''u2''\<rparr>]\<rparr>"

definition legacyNewcomer :: store_legacy where
  "legacyNewcomer = \<lparr>users_legacy = [alice], problems_legacy = []\<rparr>"

definition graded :: feedback_data where
  "graded = \<lparr>is_correct = True, fb_feedback = ''good'', voice_path = ''v2''\<rparr>"

definition clip :: voice where
  "clip = \<lparr>buffer = ''bytes'', originalname = ''a.wav''\<rparr>"

definition generated :: problem_data where
  "generated = \<lparr>r_id = ''p9'', r_question = ''q'', r_answer = ''a'', r_image = ''img'',
     r_image_path = ''path'', r_whole_text = ''w''\<rparr>"

lemmas sample_defs = emptyStore_def may10_def may10_later_def may11_def alice_def attempt_def
  bucket_def p1_def newcomer_def learner_def stranger_def legacyNewcomer_def graded_def
  clip_def generated_def

section \<open>Queries\<close>

lemma max_by_None: "max_by k xs = None \<longleftrightarrow> xs = []"
  by (induction xs) (auto split: option.splits)

lemma max_by_mem: "max_by k xs = Some a \<Longrightarrow> a \<in> set xs"
  by (induction xs arbitrary: a) (auto split: option.splits if_splits)

lemma max_by_ge: "max_by k xs = Some a \<Longrightarrow> x \<in> set xs \<Longrightarrow> k x \<le> k a"
proof (induction xs arbitrary: a x)
  case Nil
  then show ?case by simp
next
  case (Cons y ys)
  show ?case
  proof (cases "max_by k ys")
    case None
    then have "ys = []" by (simp add: max_by_None)
    with Cons.prems None show ?thesis by simp
  next
    case (Some b)
    have ge: "\<And>z. z \<in> set ys \<Longrightarrow> k z \<le> k b" using Cons.IH [OF Some] by simp
    show ?thesis
    proof (cases "k y < k b")
      case True
      with Cons.prems Some have "a = b" by simp
      with Cons.prems(2) ge True show ?thesis by auto
    next
      case False
      with Cons.prems Some have "a = y" by simp
      with Cons.prems(2) ge False show ?thesis by force
    qed
  qed
qed

lemma max_by_top:
  assumes "y \<in> set ys" and "\<And>z. z \<in> set ys \<Longrightarrow> k z \<le> k y"
  shows "\<exists>a. max_by k ys = Some a \<and> k a = k y"
proof -
  from assms(1) have "ys \<noteq> []" by auto
  then obtain a where a: "max_by k ys = Some a"
    using max_by_None [of k ys] by (cases "max_by k ys") auto
  have "k y \<le> k a" using max_by_ge [OF a assms(1)] .
  moreover have "k a \<le> k y" using assms(2) max_by_mem [OF a] by simp
  ultimately show ?thesis using a by simp
qed

lemma level_key_inj: "level_key a = level_key b \<Longrightarrow> a = b"
  by (cases a; cases b) auto

lemma js_gt_key: "js_gt r l \<Longrightarrow> level_key l < level_key r"
  by (cases r; cases l) auto

lemma fresh_id_notin: "fresh_id ids \<notin> set ids"
proof
  assume "fresh_id ids \<in> set ids"
  then have "fresh_id ids \<le> Max (set (0 # ids))" by simp
  also have "\<dots> = fold max ids 0" by (rule Max.set_eq_fold)
  finally show False by (simp add: fresh_id_def)
qed

lemma retitle_id: "ach_id (retitle r j a) = ach_id a"
  by (simp add: retitle_def)

lemma find_retitle:
  "find (\<lambda>b. ach_id b = i) (map (retitle r j) as) = map_option (retitle r j) (find (\<lambda>b. ach_id b = i) as)"
  by (induction as) (auto simp: retitle_id)

lemma map_filter_map_option:
  "List.map_filter (\<lambda>x. map_option g (f x)) xs = map g (List.map_filter f xs)"
  by (induction xs) (auto simp: List.map_filter_def)

lemma achievementsOf_retitle:
  "achievementsOf (st\<lparr>achievements := map (retitle r j) (achievements st)\<rparr>) uid
     = map (retitle r j) (achievementsOf st uid)"
  by (simp add: achievementsOf_def find_retitle map_filter_map_option)

lemma user_level_update:
  assumes h: "highestAnsRateAchievement st uid = Some h" and gt: "js_gt r (level h)"
  shows "user_level (st\<lparr>achievements := map (retitle r (ach_id h)) (achievements st)\<rparr>) uid = Some r"
proof -
  let ?k = "\<lambda>a. level_key (level a)"
  let ?xs = "achievementsOf st uid"
  let ?ys = "map (retitle r (ach_id h)) ?xs"
  from h have hm: "h \<in> set ?xs" and hge: "\<And>x. x \<in> set ?xs \<Longrightarrow> ?k x \<le> ?k h"
    by (auto simp: highestAnsRateAchievement_def dest: max_by_mem max_by_ge)
  have top: "retitle r (ach_id h) h \<in> set ?ys" using hm by simp
  have lev: "level (retitle r (ach_id h) h) = r" by (simp add: retitle_def)
  have le: "?k z \<le> ?k (retitle r (ach_id h) h)" if "z \<in> set ?ys" for z
  proof -
    from that obtain x where x: "x \<in> set ?xs" and z: "z = retitle r (ach_id h) x" by auto
    show ?thesis
    proof (cases "ach_id x = ach_id h")
      case True
      then show ?thesis by (simp add: z retitle_def)
    next
      case False
      then have "?k z = ?k x" by (simp add: z retitle_def)
      also have "\<dots> \<le> ?k h" using hge [OF x] .
      also have "\<dots> \<le> level_key r" using js_gt_key [OF gt] by simp
      finally show ?thesis by (simp add: lev)
    qed
  qed
  from max_by_top [of _ ?ys ?k, OF top le]
  obtain a where a: "max_by ?k ?ys = Some a" and ka: "?k a = ?k (retitle r (ach_id h) h)"
    by blast
  from ka lev have "level a = r" by (auto dest: level_key_inj)
  with a show ?thesis
    by (simp add: user_level_def highestAnsRateAchievement_def achievementsOf_retitle)
qed

lemma set_map_filter: "set (List.map_filter f xs) = {y. \<exists>x \<in> set xs. f x = Some y}"
  by (induction xs) (auto simp: List.map_filter_def)

lemma find_snoc: "find P (xs @ [y]) = (case find P xs of None \<Rightarrow> (if P y then Some y else None) | Some x \<Rightarrow> Some x)"
  by (induction xs) auto

lemma find_None_notin: "x \<notin> f ` set xs \<Longrightarrow> find (\<lambda>a. f a = x) xs = None"
  by (induction xs) auto

lemma user_level_create:
  fixes r :: number
  assumes none: "highestAnsRateAchievement st uid = None"
  defines "i \<equiv> fresh_id (map ach_id (achievements st))"
  defines "new \<equiv> \<lparr>ach_id = i, title = RateReached r, description = RateRecord r, level = r\<rparr>"
  shows "user_level (st\<lparr>achievements := achievements st @ [new],
            userAchievements := userAchievements st @ [\<lparr>ua_userId = uid, achievementId = i\<rparr>]\<rparr>) uid
         = Some r"
proof -
  let ?st' = "st\<lparr>achievements := achievements st @ [new],
            userAchievements := userAchievements st @ [\<lparr>ua_userId = uid, achievementId = i\<rparr>]\<rparr>"
  from none have empty: "achievementsOf st uid = []"
    by (simp add: highestAnsRateAchievement_def max_by_None)
  have fresh: "find (\<lambda>a. ach_id a = i) (achievements st) = None"
    using fresh_id_notin [of "map ach_id (achievements st)"]
    by (intro find_None_notin) (simp add: i_def)
  have old: "find (\<lambda>a. ach_id a = achievementId ua) (achievements st) = None"
    if "ua \<in> set (userAchievements st)" and "ua_userId ua = uid" for ua
  proof (rule ccontr)
    assume "find (\<lambda>a. ach_id a = achievementId ua) (achievements st) \<noteq> None"
    then obtain a where "find (\<lambda>a. ach_id a = achievementId ua) (achievements st) = Some a"
      by auto
    with that have "a \<in> set (achievementsOf st uid)"
      by (auto simp: achievementsOf_def set_map_filter)
    with empty show False by simp
  qed
  have sub: "set (achievementsOf ?st' uid) \<subseteq> {new}"
    by (auto simp: achievementsOf_def set_map_filter find_snoc old fresh
             split: option.splits if_splits)
  have mem: "new \<in> set (achievementsOf ?st' uid)"
    by (auto simp: achievementsOf_def set_map_filter find_snoc fresh new_def)
  then have "achievementsOf ?st' uid \<noteq> []" by auto
  then obtain a where a: "max_by (\<lambda>a. level_key (level a)) (achievementsOf ?st' uid) = Some a"
    using max_by_None [of _ "achievementsOf ?st' uid"] by fastforce
  from max_by_mem [OF a] sub have "a = new" by auto
  with a show ?thesis
    by (simp add: user_level_def highestAnsRateAchievement_def new_def)
qed

lemma user_level_step:
  "user_level (checkAndCreateAchievement st uid r) uid =
     Some (case user_level st uid of None \<Rightarrow> r | Some l \<Rightarrow> if js_gt r l then r else l)"
proof (cases "highestAnsRateAchievement st uid")
  case None
  then show ?thesis
    using user_level_create [OF None, of r]
    by (simp add: checkAndCreateAchievement_def Let_def user_level_def)
next
  case (Some h)
  show ?thesis
  proof (cases "js_gt r (level h)")
    case True
    then show ?thesis
      using user_level_update [OF Some True] Some
      by (simp add: checkAndCreateAchievement_def user_level_def)
  next
    case False
    then show ?thesis using Some
      by (simp add: checkAndCreateAchievement_def user_level_def)
  qed
qed

lemma finite_levels_step:
  "finite_levels st \<Longrightarrow> finite_levels (checkAndCreateAchievement st uid (Fin q))"
  by (auto simp: finite_levels_def checkAndCreateAchievement_def Let_def list_all_iff retitle_def
           split: option.splits)

lemma finite_levels_evaluate_all:
  "finite_levels st \<Longrightarrow> finite_levels (evaluate_all st calls)"
  unfolding evaluate_all_def
  by (induction calls arbitrary: st) (auto simp: finite_levels_step)

lemma finite_levels_user_level:
  assumes "finite_levels st"
  shows "user_level st uid = None \<or> (\<exists>l. user_level st uid = Some (Fin l))"
proof (cases "highestAnsRateAchievement st uid")
  case None
  then show ?thesis by (simp add: user_level_def)
next
  case (Some h)
  then have "h \<in> set (achievementsOf st uid)"
    by (auto simp: highestAnsRateAchievement_def dest: max_by_mem)
  then have "h \<in> set (achievements st)"
    by (auto simp: achievementsOf_def set_map_filter dest: find_Some_iff [THEN iffD1] simp: in_set_conv_nth)
  with assms have "isFinite (level h)"
    by (simp add: finite_levels_def list_all_iff)
  then obtain l where "level h = Fin l"
    by (cases "level h") auto
  with Some show ?thesis by (simp add: user_level_def)
qed

section \<open>Counting and replacing rows\<close>

lemma find_user_id: "find (\<lambda>u. user_id u = uid) us = Some usr \<Longrightarrow> user_id usr = uid"
  by (auto simp: find_Some_iff)

lemma countCorrect_acc:
  "foldl (\<lambda>acc cur. if truthy (isCorrect cur) then acc + 1 else acc) a hs
     = a + int (length (filter (\<lambda>h. isCorrect h = Some True) hs))"
proof (induction hs arbitrary: a)
  case Nil
  then show ?case by simp
next
  case (Cons h hs)
  have "truthy (isCorrect h) \<longleftrightarrow> isCorrect h = Some True"
    by (cases "isCorrect h") auto
  with Cons show ?case by simp
qed

lemma countCorrect_count:
  "countCorrect hs = int (length (filter (\<lambda>h. isCorrect h = Some True) hs))"
  by (simp add: countCorrect_def countCorrect_acc)

lemma sameDay_day_key: "sameDay a b \<longleftrightarrow> day_key a = day_key b"
  by (auto simp: sameDay_def day_key_def)



lemma answerRate_empty: "answerRate [] = Fin 0"
  by (simp add: answerRate_def)

lemma answerRate_finite: "isFinite (answerRate hs)"
  by (simp add: answerRate_def js_div_def Let_def)

lemma answerRate_legacy_empty: "answerRate_legacy [] = NaN"
  by (simp add: answerRate_legacy_def js_div_def)

text \<open>
  The current revision guards the division; the quotient it sends is always finite. No
  revision tests the user row for \<^verbatim>\<open>null\<close> before reading it.
\<close>

lemma generateProblem_absent_user:
  "find (\<lambda>u. user_id u = uid) (users st) = None \<Longrightarrow>
     generateProblem cur ai st uid = (Inl TypeError, st, [])"
  by (simp add: generateProblem_def)

section \<open>The accuracy of an empty history\<close>

text \<open>
  Claim C1: for a user whose attempt history is empty the accuracy computed by
  \<^verbatim>\<open>generateProblem\<close> is exactly 0 and no division by zero takes place. The current
  and the intermediate revision do so (\<open>answerRate_empty\<close>, \<open>answerRate_finite\<close>).
  The legacy revision divides the count by the length without a test: for a user with no
  problem yet it computes \<^verbatim>\<open>0 / 0\<close> and sends the accuracy NaN.
\<close>

theorem legacy_accuracy_of_empty_history_is_NaN:
  "recentProblems legacyNewcomer ''u1'' = [] \<and>
   generateProblem_legacy may11 (Rejects ''down'') legacyNewcomer ''u1'' =
     (Inl (HttpError ''down''), legacyNewcomer,
      [Post ''/generate_problem''
         (Json \<lparr>age = 51, accuracy = NaN, interests = ''cars'', languageLevel = Beginner,
                languageGoals = None, feedbackHistory = EmptyText\<rparr>)])"
  by (simp add: generateProblem_legacy_def recentProblems_def answerRate_legacy_def js_div_def
      ageInMonths_def sample_defs)

section \<open>The achievement level never decreases\<close>

text \<open>
  Claim C2: over any sequence of calls of \<^verbatim>\<open>checkAndCreateAchievement\<close> the level
  stored for a user never decreases; after each call it is the maximum of its previous
  value and the new rate. Stated for a store whose levels are finite and for finite
  rates: after any run of calls, for any users, the user has no level or a finite one; a
  further call with rate \<open>q\<close> leaves the level \<open>q\<close> in the first case and the maximum
  of the old level and \<open>q\<close> in the second.
\<close>

theorem achievement_level_never_decreases:
  assumes "finite_levels st"
  shows "let s1 = evaluate_all st calls; s2 = checkAndCreateAchievement s1 uid (Fin q) in
     (user_level s1 uid = None \<or> (\<exists>l. user_level s1 uid = Some (Fin l))) \<and>
     (user_level s1 uid = None \<longrightarrow> user_level s2 uid = Some (Fin q)) \<and>
     (\<forall>l. user_level s1 uid = Some (Fin l) \<longrightarrow> user_level s2 uid = Some (Fin (max l q)))"
proof -
  have fin: "finite_levels (evaluate_all st calls)"
    using assms by (rule finite_levels_evaluate_all)
  have shape: "user_level (evaluate_all st calls) uid = None \<or>
      (\<exists>l. user_level (evaluate_all st calls) uid = Some (Fin l))"
    using fin by (rule finite_levels_user_level)
  have "max l q = (if l < q then q else l)" for l :: rat by auto
  then show ?thesis
    using shape by (auto simp: Let_def user_level_step)
qed

theorem achievement_level_never_decreases_witness:
  "finite_levels emptyStore \<and>
   user_level (evaluate_all emptyStore []) ''u1'' = None \<and>
   user_level (checkAndCreateAchievement (evaluate_all emptyStore []) ''u1'' (Fin (2 / 3))) ''u1''
     = Some (Fin (2 / 3)) \<and>
   user_level (evaluate_all emptyStore [(''u1'', 2 / 3), (''u2'', 9 / 10)]) ''u1''
     = Some (Fin (2 / 3)) \<and>
   user_level (checkAndCreateAchievement
       (evaluate_all emptyStore [(''u1'', 2 / 3), (''u2'', 9 / 10)]) ''u1'' (Fin (1 / 2))) ''u1''
     = Some (Fin (2 / 3)) \<and>
   user_level (checkAndCreateAchievement
       (evaluate_all emptyStore [(''u1'', 2 / 3), (''u2'', 9 / 10)]) ''u1'' (Fin (3 / 4))) ''u1''
     = Some (Fin (3 / 4))"
proof -
  have h: "finite_levels emptyStore"
    by (simp add: finite_levels_def emptyStore_def)
  have a: "user_level (evaluate_all emptyStore []) ''u1'' = None"
    by (simp add: evaluate_all_def emptyStore_def user_level_def highestAnsRateAchievement_def
        achievementsOf_def List.map_filter_def)
  have b: "user_level (evaluate_all emptyStore [(''u1'', 2 / 3), (''u2'', 9 / 10)]) ''u1''
      = Some (Fin (2 / 3))"
    by (simp add: evaluate_all_def emptyStore_def checkAndCreateAchievement_def user_level_def
        highestAnsRateAchievement_def achievementsOf_def fresh_id_def List.map_filter_def)
  have m: "max (2 / 3) (1 / 2) = (2 / 3 :: rat)" "max (2 / 3) (3 / 4) = (3 / 4 :: rat)"
    by simp_all
  show ?thesis
    using h a b m
      achievement_level_never_decreases [OF h, of "[]" "''u1''" "2 / 3"]
      achievement_level_never_decreases [OF h, of "[(''u1'', 2 / 3), (''u2'', 9 / 10)]" "''u1''" "1 / 2"]
      achievement_level_never_decreases [OF h, of "[(''u1'', 2 / 3), (''u2'', 9 / 10)]" "''u1''" "3 / 4"]
    by (simp add: Let_def)
qed

section \<open>Progress buckets\<close>

text \<open>
  Claim C3: when the user's most recent bucket belongs to a calendar day strictly before
  today, \<^verbatim>\<open>checkProgress\<close> appends one bucket, stamped today, whose counts are the
  number of correct attempts and the number of all attempts in the user's whole history;
  the buckets already stored, the prior one included, stay as they are.
\<close>

theorem checkProgress_rollover:
  assumes usr: "find (\<lambda>u. user_id u = uid) (users st) = Some usr"
    and latest: "latestProgress st uid = Some prog"
    and before: "day_key (createdAt prog) < day_key cur"
  shows "checkProgress cur st uid ok =
     (Inr (),
      st\<lparr>progresses := progresses st @
        [\<lparr>prog_id = fresh_id (map prog_id (progresses st)), prog_userId = uid,
          prog_correct =
            int (length (filter (\<lambda>h. sh_userId h = uid \<and> isCorrect h = Some True) (solveHistories st))),
          prog_total = int (length (filter (\<lambda>h. sh_userId h = uid) (solveHistories st))),
          createdAt = cur\<rparr>]\<rparr>)"
proof -
  have id: "user_id usr = uid" using usr by (rule find_user_id)
  have other: "\<not> sameDay (createdAt prog) cur"
    using before by (simp add: sameDay_day_key)
  have conj: "filter (\<lambda>h. isCorrect h = Some True) (filter (\<lambda>h. sh_userId h = uid) hs)
      = filter (\<lambda>h. sh_userId h = uid \<and> isCorrect h = Some True) hs" for hs
    by (induction hs) auto
  show ?thesis
    by (simp add: checkProgress_def usr id latest other Let_def countCorrect_count
        solveHistoriesOf_def conj)
qed

theorem checkProgress_rollover_witness:
  "find (\<lambda>u. user_id u = ''u1'') (users learner) = Some alice \<and>
   latestProgress learner ''u1'' = Some bucket \<and>
   day_key (createdAt bucket) < day_key may11 \<and>
   checkProgress may11 learner ''u1'' False =
     (Inr (), learner\<lparr>progresses := [bucket,
        \<lparr>prog_id = 2, prog_userId = ''u1'', prog_correct = 2, prog_total = 3, createdAt = may11\<rparr>]\<rparr>)"
proof -
  have a: "find (\<lambda>u. user_id u = ''u1'') (users learner) = Some alice"
    by (simp add: sample_defs)
  have b: "latestProgress learner ''u1'' = Some bucket"
    by (simp add: sample_defs latestProgress_def)
  have c: "day_key (createdAt bucket) < day_key may11"
    by (simp add: sample_defs day_key_def)
  show ?thesis
    using a b c checkProgress_rollover [OF a b c, of False]
    by (simp add: sample_defs fresh_id_def)
qed



section \<open>generateFeedback\<close>

text \<open>
  Claim C5: when no problem with the given id is owned by the caller,
  \<^verbatim>\<open>generateFeedback\<close> fails with the error \<^verbatim>\<open>Problem not found\<close>, the store is
  as before (so no attempt row was created) and no request went to the inference service.
\<close>

theorem generateFeedback_problem_not_found:
  assumes "\<forall>p \<in> set (problems st). \<not> (problem_id p = problemId \<and> problem_userId p = uid)"
  shows "generateFeedback cur ai f st problemId uid v = (Inl (Error ''Problem not found''), st, [])"
proof -
  from assms
  have "find (\<lambda>p. problem_id p = problemId \<and> problem_userId p = uid) (problems st) = None"
    by (simp add: find_None_iff)
  then show ?thesis by (simp add: generateFeedback_def)
qed

theorem generateFeedback_problem_not_found_witness:
  "map (\<lambda>p. (problem_id p, problem_userId p)) (problems stranger) = [(''p1'', ''u2'')] \<and>
   generateFeedback may10_later (Resolves graded) Fulfilled stranger ''p1'' ''u1'' clip
     = (Inl (Error ''Problem not found''), stranger, [])"
proof -
  have h: "\<forall>p \<in> set (problems stranger). \<not> (problem_id p = ''p1'' \<and> problem_userId p = ''u1'')"
    by (simp add: sample_defs)
  have o: "map (\<lambda>p. (problem_id p, problem_userId p)) (problems stranger) = [(''p1'', ''u2'')]"
    by (simp add: sample_defs)
  show ?thesis
    using o generateFeedback_problem_not_found [OF h, of may10_later "Resolves graded" Fulfilled clip]
    by simp
qed

text \<open>
  Claim C6: when the call to the inference service fails, \<^verbatim>\<open>generateFeedback\<close> fails
  with an \<^verbatim>\<open>InternalServerErrorException\<close> carrying the upstream message, and the
  store is as before: no attempt row, no progress update, whatever would have become of
  the background update.
\<close>

theorem generateFeedback_upstream_failure:
  assumes "find (\<lambda>p. problem_id p = problemId \<and> problem_userId p = uid) (problems st) = Some prob"
  shows "generateFeedback cur (Rejects msg) f st problemId uid v =
     (Inl (InternalServerErrorException msg), st,
      [Post ''/chat/generate_feedback''
         (Multipart \<lparr>form_problemId = problemId, form_answer = JSON_stringify (answer prob),
                     form_voice = (buffer v, originalname v)\<rparr>)])"
  using assms by (simp add: generateFeedback_def)

theorem generateFeedback_upstream_failure_witness:
  "find (\<lambda>p. problem_id p = ''p1'' \<and> problem_userId p = ''u1'') (problems learner) = Some p1 \<and>
   generateFeedback may10_later (Rejects ''timeout'') Fulfilled learner ''p1'' ''u1'' clip =
     (Inl (InternalServerErrorException ''timeout''), learner,
      [Post ''/chat/generate_feedback''
         (Multipart \<lparr>form_problemId = ''p1'', form_answer = [CHR 0x22, CHR ''a'', CHR 0x22],
                     form_voice = (''bytes'', ''a.wav'')\<rparr>)]) \<and>
   fst (snd (generateFeedback may10_later (Resolves graded) Fulfilled learner ''p1'' ''u1'' clip))
     \<noteq> learner"
proof -
  have h: "find (\<lambda>p. problem_id p = ''p1'' \<and> problem_userId p = ''u1'') (problems learner) = Some p1"
    by (simp add: sample_defs)
  have d: "fst (snd (generateFeedback may10_later (Resolves graded) Fulfilled learner ''p1'' ''u1'' clip))
     \<noteq> learner"
    by (simp add: generateFeedback_def settle_def checkProgress_def
        latestProgress_def sameDay_def bump_def sample_defs)
  show ?thesis
    using h d generateFeedback_upstream_failure [OF h, of may10_later "''timeout''" Fulfilled clip]
    by (simp add: sample_defs JSON_stringify_def json_escape_def)
qed

section \<open>generateProblem\<close>

text \<open>
  Claim C7: \<^verbatim>\<open>generateProblem\<close> for a user id without a user row fails with NotFound
  and goes no further. The operation does stop there, with the store untouched and no
  request sent (\<open>generateProblem_absent_user\<close>), but no test raises a not-found error:
  the failure is the TypeError of reading \<^verbatim>\<open>birth\<close> from \<^verbatim>\<open>null\<close>.
\<close>

theorem generateProblem_unknown_user_raises_TypeError:
  "generateProblem may11 (Resolves generated) learner ''ghost'' = (Inl TypeError, learner, [])"
  by (simp add: generateProblem_def sample_defs)

text \<open>
  The current and the intermediate revision hand back the problem id of the reply with
  its question and its image, and no revision hands back anything that depends on the
  expected answer.
\<close>

lemma generateProblem_result_current:
  "fst (generateProblem cur ai st uid) = Inr obj \<Longrightarrow>
     \<exists>r. ai = Resolves r \<and>
       obj = [(''problemId'', r_id r), (''question'', r_question r), (''image'', r_image r)]"
  "fst (generateProblem_mid cur ai st uid) = Inr obj \<Longrightarrow>
     \<exists>r. ai = Resolves r \<and>
       obj = [(''problemId'', r_id r), (''question'', r_question r), (''image'', r_image r)]"
  by (auto simp: generateProblem_def generateProblem_mid_def Let_def
      split: option.splits reply.splits)

lemma generateProblem_result_ignores_answer:
  "fst (generateProblem cur (Resolves (r\<lparr>r_answer := a\<rparr>)) st uid) =
     fst (generateProblem cur (Resolves r) st uid)"
  "fst (generateProblem_mid cur (Resolves (r\<lparr>r_answer := a\<rparr>)) st uid) =
     fst (generateProblem_mid cur (Resolves r) st uid)"
  "fst (generateProblem_legacy cur (Resolves (r\<lparr>r_answer := a\<rparr>)) lst uid) =
     fst (generateProblem_legacy cur (Resolves r) lst uid)"
  by (auto simp: generateProblem_def generateProblem_mid_def generateProblem_legacy_def Let_def
      split: option.splits)

text \<open>
  Claim C8: every successful \<^verbatim>\<open>generateProblem\<close> returns exactly the problem id, the
  question and the image, and never the expected answer. The legacy revision stores the
  problem under the id of the reply and returns the question and the image only, so its
  caller never learns the id that the legacy \<^verbatim>\<open>generateFeedback\<close> asks for.
\<close>

theorem legacy_result_has_no_problemId:
  "fst (generateProblem_legacy may11 (Resolves generated) legacyNewcomer ''u1'') =
     Inr [(''question'', ''q''), (''image'', ''img'')] \<and>
   map problem_id
     (problems_legacy (fst (snd (generateProblem_legacy may11 (Resolves generated)
        legacyNewcomer ''u1'')))) = [''p9''] \<and>
   fst (generateProblem_legacy may11 (Resolves generated) legacyNewcomer ''u1'') \<noteq>
     Inr [(''problemId'', r_id generated), (''question'', r_question generated),
          (''image'', r_image generated)] \<and>
   fst (generateProblem may11 (Resolves generated) newcomer ''u1'') =
     Inr [(''problemId'', r_id generated), (''question'', r_question generated),
          (''image'', r_image generated)]"
  by (simp add: generateProblem_legacy_def generateProblem_def sample_defs Let_def)

text \<open>
  Claim C9: the current \<^verbatim>\<open>generateProblem\<close> awaits \<^verbatim>\<open>checkAndCreateAchievement\<close>
  before it posts to the inference service. When the post is rejected the operation
  fails with that rejection, and the store it leaves is the one the achievement call
  produced: the achievement created, or the level raised, stays.
\<close>

theorem generateProblem_achievement_survives_upstream_failure:
  assumes "find (\<lambda>u. user_id u = uid) (users st) = Some usr"
  shows "generateProblem cur (Rejects msg) st uid =
       (Inl (HttpError msg),
        checkAndCreateAchievement st uid (answerRate (solveHistoriesOf st uid)),
        [Post ''/chat/generate_problem''
           (Json \<lparr>age = ageInMonths cur (birth usr),
                  accuracy = answerRate (solveHistoriesOf st uid), interests = interest usr,
                  languageLevel = Beginner, languageGoals = None,
                  feedbackHistory = PendingQuery\<rparr>)]) \<and>
     user_level (fst (snd (generateProblem cur (Rejects msg) st uid))) uid =
       Some (case user_level st uid of
               None \<Rightarrow> answerRate (solveHistoriesOf st uid)
             | Some l \<Rightarrow> if js_gt (answerRate (solveHistoriesOf st uid)) l
                         then answerRate (solveHistoriesOf st uid) else l)"
proof -
  have id: "user_id usr = uid" using assms by (rule find_user_id)
  show ?thesis
    using assms id by (simp add: generateProblem_def Let_def user_level_step)
qed

theorem generateProblem_achievement_survives_upstream_failure_witness:
  "find (\<lambda>u. user_id u = ''u1'') (users learner) = Some alice \<and>
   fst (generateProblem may11 (Rejects ''down'') learner ''u1'') = Inl (HttpError ''down'') \<and>
   achievements learner = [] \<and>
   achievements (fst (snd (generateProblem may11 (Rejects ''down'') learner ''u1''))) =
     [\<lparr>ach_id = 1, title = RateReached (Fin (2 / 3)), description = RateRecord (Fin (2 / 3)),
       level = Fin (2 / 3)\<rparr>]"
proof -
  have h: "find (\<lambda>u. user_id u = ''u1'') (users learner) = Some alice"
    by (simp add: sample_defs)
  have r: "answerRate (solveHistoriesOf learner ''u1'') = Fin (2 / 3)"
    by (simp add: sample_defs answerRate_def solveHistoriesOf_def countCorrect_def js_div_def)
  have a: "achievements (checkAndCreateAchievement learner ''u1'' (Fin (2 / 3))) =
     [\<lparr>ach_id = 1, title = RateReached (Fin (2 / 3)), description = RateRecord (Fin (2 / 3)),
       level = Fin (2 / 3)\<rparr>]"
    by (simp add: sample_defs checkAndCreateAchievement_def highestAnsRateAchievement_def
        achievementsOf_def List.map_filter_def fresh_id_def)
  have e: "achievements learner = []" by (simp add: sample_defs)
  show ?thesis
    using h r a e
      generateProblem_achievement_survives_upstream_failure [OF h, of may11 "''down''"]
    by simp
qed

text \<open>
  What does hold in the current revision: the caller gets the grading payload however
  the progress update settles, and no attempt row is written in either case.
\<close>

lemma generateFeedback_success:
  assumes "find (\<lambda>p. problem_id p = problemId \<and> problem_userId p = uid) (problems st) = Some prob"
  shows "fst (generateFeedback cur (Resolves d) f st problemId uid v) = Inr d"
    and "solveHistories (fst (snd (generateFeedback cur (Resolves d) f st problemId uid v)))
           = solveHistories st"
    and "generateFeedback cur (Resolves d) Rejected st problemId uid v =
           (Inr d, st,
            [Post ''/chat/generate_feedback''
               (Multipart \<lparr>form_problemId = problemId,
                           form_answer = JSON_stringify (answer prob),
                           form_voice = (buffer v, originalname v)\<rparr>)])"
proof -
  show "fst (generateFeedback cur (Resolves d) f st problemId uid v) = Inr d"
    using assms by (simp add: generateFeedback_def)
  have keep: "solveHistories (snd (checkProgress cur st uid ok)) = solveHistories st" for ok
    by (simp add: checkProgress_def Let_def split: option.splits)
  show "solveHistories (fst (snd (generateFeedback cur (Resolves d) f st problemId uid v)))
           = solveHistories st"
    using assms by (cases f) (simp_all add: generateFeedback_def settle_def keep)
  show "generateFeedback cur (Resolves d) Rejected st problemId uid v =
           (Inr d, st,
            [Post ''/chat/generate_feedback''
               (Multipart \<lparr>form_problemId = problemId,
                           form_answer = JSON_stringify (answer prob),
                           form_voice = (buffer v, originalname v)\<rparr>)])"
    using assms by (simp add: generateFeedback_def settle_def)
qed

text \<open>
  Claim C10: on a successful reply \<^verbatim>\<open>generateFeedback\<close> issues the attempt write and
  the progress update without awaiting them and returns the grading payload, whatever
  becomes of the two. For a caller who owns the problem and a reply that grades the
  answer as correct: in the current revision the payload is returned and the bucket of
  today is raised, but the table of attempts is as before, the create query having never
  been sent; in the intermediate revision the call of the missing \<^verbatim>\<open>checkProgress\<close>
  fails and the caller gets an \<^verbatim>\<open>InternalServerErrorException\<close> in place of the
  payload.
\<close>

theorem generateFeedback_success_writes_no_attempt:
  "generateFeedback may10_later (Resolves graded) Fulfilled learner ''p1'' ''u1'' clip =
     (Inr graded,
      learner\<lparr>progresses := [bucket\<lparr>prog_correct := 2, prog_total := 2\<rparr>]\<rparr>,
      [Post ''/chat/generate_feedback''
         (Multipart \<lparr>form_problemId = ''p1'', form_answer = [CHR 0x22, CHR ''a'', CHR 0x22],
                     form_voice = (''bytes'', ''a.wav'')\<rparr>)]) \<and>
   solveHistories
     (fst (snd (generateFeedback may10_later (Resolves graded) Fulfilled learner ''p1'' ''u1'' clip)))
     = solveHistories learner \<and>
   generateFeedback_mid (Resolves graded) learner ''p1'' ''u1'' clip =
     (Inl (InternalServerErrorException ''this.checkProgress is not a function''), learner,
      [Post ''/chat/generate_feedback''
         (Multipart \<lparr>form_problemId = ''p1'', form_answer = [CHR 0x22, CHR ''a'', CHR 0x22],
                     form_voice = (''bytes'', ''a.wav'')\<rparr>)])"
  by (simp add: generateFeedback_def generateFeedback_mid_def settle_def checkProgress_def
      latestProgress_def sameDay_def bump_def JSON_stringify_def json_escape_def sample_defs)

end
